theory Spec2Isabelle
  imports Complex_Main
begin

section \<open>Helpers (internal/helpers/utils.go) and the Go string library\<close>

text \<open>
  \<^verbatim>\<open>IsInArray[T comparable]\<close> scans the slice from the front and returns at the first
  element that \<^verbatim>\<open>==\<close> finds equal to the one looked for. What \<^verbatim>\<open>==\<close> does depends on
  the element type, so the generic function takes it as the parameter \<open>eq\<close>; a
  comparison that panics is \<open>None\<close>, and the panic ends the scan.
\<close>

fun IsInArrayT :: "('a \<Rightarrow> 'a \<Rightarrow> bool option) \<Rightarrow> 'a \<Rightarrow> 'a list \<Rightarrow> bool option" where
  "IsInArrayT eq element [] = Some False"
| "IsInArrayT eq element (el # array) =
     (case eq element el of
        None \<Rightarrow> None
      | Some True \<Rightarrow> Some True
      | Some False \<Rightarrow> IsInArrayT eq element array)"

text \<open>
  Go's \<^verbatim>\<open>==\<close> at three element types. On strings it is equality. On \<^verbatim>\<open>float64\<close> it
  is equality of the numbers, except that \<^verbatim>\<open>NaN\<close> equals nothing, itself included. On
  interface values it is false for different dynamic types, the comparison of the
  dynamic type for equal ones, and a run-time panic when that type is a slice.
\<close>

definition stringEq :: "string \<Rightarrow> string \<Rightarrow> bool option" where
  "stringEq a b = Some (a = b)"

datatype float64 = Finite real | PosInf | NegInf | NaN

fun float64Eq :: "float64 \<Rightarrow> float64 \<Rightarrow> bool option" where
  "float64Eq NaN b = Some False"
| "float64Eq a NaN = Some False"
| "float64Eq a b = Some (a = b)"

datatype any = AString string | AFloat float64 | ASlice "string list"

fun anyEq :: "any \<Rightarrow> any \<Rightarrow> bool option" where
  "anyEq (AString a) (AString b) = stringEq a b"
| "anyEq (AFloat a) (AFloat b) = float64Eq a b"
| "anyEq (ASlice a) (ASlice b) = None"
| "anyEq a b = Some False"

text \<open>
  The instance at strings, the only one the repository uses
  (\<^verbatim>\<open>helpers.IsInArray(strings.Split(key, "_")[0], supportedAggregations)\<close>): the same
  scan with string equality, which never panics.
\<close>

fun IsInArray :: "string \<Rightarrow> string list \<Rightarrow> bool" where
  "IsInArray element [] = False"
| "IsInArray element (el # array) = (if element = el then True else IsInArray element array)"

text \<open>
  \<^verbatim>\<open>strings.Split(s, sep)\<close> for a one-character separator, the only way the handlers
  call it (\<^verbatim>\<open>","\<close> and \<^verbatim>\<open>"_"\<close>). The scan keeps the piece read so far in \<open>cur\<close>;
  a separator closes the piece and opens an empty one, the end of the string closes the
  last piece. The result therefore has one piece more than there are separators, and
  splitting the empty string gives one empty piece.
\<close>

fun splitFrom :: "char \<Rightarrow> string \<Rightarrow> string \<Rightarrow> string list" where
  "splitFrom sep cur [] = [cur]"
| "splitFrom sep cur (c # s) =
     (if c = sep then cur # splitFrom sep [] s else splitFrom sep (cur @ [c]) s)"

definition Split :: "string \<Rightarrow> char \<Rightarrow> string list" where
  "Split s sep = splitFrom sep [] s"

text \<open>\<^verbatim>\<open>strings.Join(elems, sep)\<close>: the elements with \<open>sep\<close> between neighbours.\<close>

fun Join :: "string list \<Rightarrow> string \<Rightarrow> string" where
  "Join [] sep = []"
| "Join [e] sep = e"
| "Join (e # e' # es) sep = e @ sep @ Join (e' # es) sep"

section \<open>Data model: readings, the store client, the handler\<close>

text \<open>
  \<^verbatim>\<open>models.SensorData\<close>. A \<^verbatim>\<open>float64\<close> that arrives in a JSON body is a finite number,
  and the handler only compares it with \<open>0\<close> and \<open>100\<close>, which is exact on finite values:
  the two fields are real numbers here.

  \<^verbatim>\<open>time.Time\<close> is the struct of Go's library with its three fields: \<open>wall\<close> (the
  nanoseconds of a time read from text), \<open>ext\<close> (the seconds since January 1 of year
  1, UTC) and \<open>loc\<close>, a pointer to the location, which is \<^verbatim>\<open>nil\<close> for UTC (a time
  written with \<^verbatim>\<open>Z\<close>) and points to a zone for a time written with a numeric offset,
  \<^verbatim>\<open>+00:00\<close> included. The zero value of the type has \<open>0\<close>, \<open>0\<close> and \<^verbatim>\<open>nil\<close>.
\<close>

datatype Location = Local | FixedZone int

record GoTime =
  wall :: nat
  ext :: int
  loc :: "Location option"

definition zeroTime :: GoTime where
  "zeroTime = \<lparr>wall = 0, ext = 0, loc = None\<rparr>"

record SensorData =
  DeviceID :: string
  Temperature :: real
  Humidity :: real
  Location :: string
  TimestampSampled :: GoTime

text \<open>
  Values of type \<^verbatim>\<open>interface{}\<close> found in a result row or put into a point:
  \<^verbatim>\<open>nil\<close>, a string, a float, an integer or a time.
\<close>

datatype val = VNil | VString string | VFloat real | VInt int | VTime int

text \<open>
  \<^verbatim>\<open>Record().Values()\<close> is a \<^verbatim>\<open>map[string]interface{}\<close>. It is kept as the list of
  its entries in the order the \<^verbatim>\<open>range\<close> loop visits them (Go fixes no order);
  the keys of a Go map are distinct. Indexing a map with a key it does not hold gives
  \<^verbatim>\<open>nil\<close>.
\<close>

type_synonym row = "(string \<times> val) list"

definition index :: "row \<Rightarrow> string \<Rightarrow> val" where
  "index values key = (case map_of values key of None \<Rightarrow> VNil | Some v \<Rightarrow> v)"

text \<open>
  \<^verbatim>\<open>api.QueryTableResult\<close>: the rows that \<^verbatim>\<open>Next()\<close> yields before it returns false,
  and the error \<^verbatim>\<open>Err()\<close> reports afterwards, if any.
\<close>

record QueryTableResult =
  Records :: "row list"
  Err :: "string option"

text \<open>The point \<^verbatim>\<open>PostData\<close> assembles: measurement, tags, fields and time.\<close>

record Point =
  Measurement :: string
  Tags :: "(string \<times> string) list"
  Fields :: "(string \<times> val) list"
  Time :: GoTime

text \<open>
  The InfluxDB client is outside the repository. The handler sees two operations:
  \<^verbatim>\<open>QueryAPI(org).Query(ctx, query)\<close>, which returns an error or a result, and
  \<^verbatim>\<open>WriteAPIBlocking(org, bucket).WritePoint(ctx, point)\<close>, which returns an error or
  nothing. Both are parameters. Every call a handler makes is recorded, in order, so
  that "the store is not touched" is the empty list of calls.
\<close>

record InfluxClient =
  QueryAPI :: "string \<Rightarrow> string \<Rightarrow> string + QueryTableResult"
  WriteAPIBlocking :: "string \<Rightarrow> string \<Rightarrow> Point \<Rightarrow> string option"

datatype store_call = QueryCall string string | WriteCall string string Point

record RecordHandler =
  InfluxClient :: InfluxClient
  Org :: string
  Bucket :: string

text \<open>
  What a handler reads from \<^verbatim>\<open>*gin.Context\<close>: the path parameters, the outcome of
  binding the query string onto the preset \<^verbatim>\<open>QueryParams\<close>, the JSON body decoded
  into a \<^verbatim>\<open>SensorData\<close> (\<open>None\<close> when decoding fails; a field the body does not
  mention keeps its zero value), and the clock reading formatted for the default
  \<^verbatim>\<open>Stop\<close>.
\<close>

record QueryParams =
  Start :: string
  Stop :: string
  Aggr :: string
  AggFreq :: string

record Context =
  Param :: "string \<Rightarrow> string"
  ShouldBindQuery :: "QueryParams \<Rightarrow> string + QueryParams"
  JSONBody :: "SensorData option"
  Now :: string

text \<open>
  The response written with \<^verbatim>\<open>c.JSON(status, gin.H{...})\<close>: the status and the body,
  which is an \<^verbatim>\<open>error\<close> message, the \<^verbatim>\<open>message\<close> and \<^verbatim>\<open>data\<close> of a stored
  reading, or the \<^verbatim>\<open>data\<close> list of output records. An output record is a
  \<^verbatim>\<open>map[string]interface{}\<close>.
\<close>

type_synonym record_out = "string \<rightharpoonup> val"

datatype H = ErrorH string | StoredH string SensorData | DataH "record_out list"

type_synonym response = "nat \<times> H"

section \<open>The query builder (handlers, \<^verbatim>\<open>buildAggregatedQuery\<close>)\<close>

text \<open>
  The handlers build Flux query text with \<^verbatim>\<open>fmt.Sprintf\<close> from raw string literals.
  The literals are kept character by character, line breaks and tabs included;
  every \<^verbatim>\<open>%s\<close> is the argument spliced in unchanged.
\<close>

abbreviation nl :: char where "nl \<equiv> CHR 0x0A"
abbreviation tab :: char where "tab \<equiv> CHR 0x09"

definition supportedAggregations :: "string list" where
  "supportedAggregations = [''sum'', ''max'', ''mean'', ''min'']"

text \<open>The literal of \<^verbatim>\<open>GetDataFromDeviceByID\<close> for a request without \<^verbatim>\<open>aggr\<close>.\<close>

definition rawDeviceQuery :: "string \<Rightarrow> string \<Rightarrow> string \<Rightarrow> string \<Rightarrow> string" where
  \<open>rawDeviceQuery bucket start stop deviceId =
     [nl, tab, tab, tab] @ ''from(bucket: "'' @ bucket @ ''")'' @
     [nl, tab, tab, tab] @ ''|> range(start: '' @ start @ '', stop: '' @ stop @ '')'' @
     [nl, tab, tab, tab] @ ''|> filter(fn: (r) => r._measurement == "sensor_data")'' @
     [nl, tab, tab, tab] @ ''|> filter(fn: (r) => r["device_id"] == "'' @ deviceId @ ''")'' @
     [nl, tab, tab, tab] @ ''|> pivot(rowKey:["_time"], columnKey: ["_field"], valueColumn: "_value")'' @
     [nl, tab, tab]\<close>

text \<open>The first \<^verbatim>\<open>WriteString\<close> of \<^verbatim>\<open>buildAggregatedQuery\<close>: the base filter.\<close>

definition baseQuery :: "string \<Rightarrow> string \<Rightarrow> string \<Rightarrow> string \<Rightarrow> string" where
  \<open>baseQuery bucket start stop deviceID =
     [nl, tab, tab] @ ''data = from(bucket: "'' @ bucket @ ''")'' @
     [nl, tab, tab, tab] @ ''|> range(start: '' @ start @ '', stop: '' @ stop @ '')'' @
     [nl, tab, tab, tab] @ ''|> filter(fn: (r) => r._measurement == "sensor_data")'' @
     [nl, tab, tab, tab] @ ''|> filter(fn: (r) => r["device_id"] == "'' @ deviceID @ ''")'' @
     [nl, tab, tab, tab] @ ''|> filter(fn: (r) => r._field == "temperature" or r._field == "humidity")'' @
     [nl, tab]\<close>

text \<open>The literal of the single aggregation case: one stage and its pivot.\<close>

definition singleAggregation :: "string \<Rightarrow> string \<Rightarrow> string" where
  \<open>singleAggregation aggFunc aggFreq =
     [nl, tab, tab, tab] @ aggFunc @ ''_data = data'' @
     [nl, tab, tab, tab, tab] @ ''|> aggregateWindow(every: '' @ aggFreq @ '', fn: '' @ aggFunc @ '', createEmpty: false)'' @
     [nl, tab, tab, tab, tab] @ ''|> set(key: "_aggregate", value: "'' @ aggFunc @ ''")'' @
     [nl, tab, tab, tab, tab] @ ''|> map(fn: (r) => ({ r with _field: "'' @ aggFunc @ ''_${r._field}" }))'' @
     [nl, tab, tab, tab] @ aggFunc @ ''_data'' @
     [nl, tab, tab, tab, tab] @ ''|> pivot(rowKey: ["_time"], columnKey: ["_field"], valueColumn: "_value")'' @
     [nl, tab, tab]\<close>

text \<open>The literal written once per function in the multiple aggregations case.\<close>

definition aggregationStage :: "string \<Rightarrow> string \<Rightarrow> string" where
  \<open>aggregationStage aggFunc aggFreq =
     [nl, tab, tab, tab, tab] @ aggFunc @ ''_data = data'' @
     [nl, tab, tab, tab, tab, tab] @ ''|> aggregateWindow(every: '' @ aggFreq @ '', fn: '' @ aggFunc @ '', createEmpty: false)'' @
     [nl, tab, tab, tab, tab, tab] @ ''|> set(key: "_aggregate", value: "'' @ aggFunc @ ''")'' @
     [nl, tab, tab, tab, tab, tab] @ ''|> map(fn: (r) => ({ r with _field: "'' @ aggFunc @ ''_${r._field}" }))'' @
     [nl, tab, tab, tab]\<close>

text \<open>
  The last \<^verbatim>\<open>WriteString\<close> of the multiple aggregations case; its argument is
  \<^verbatim>\<open>strings.Join(aggrFunctions, "_data,")+"_data"\<close>.
\<close>

definition unionPivot :: "string list \<Rightarrow> string" where
  \<open>unionPivot aggrFunctions =
     [nl, tab, tab, tab] @ ''union(tables: ['' @ (Join aggrFunctions ''_data,'' @ ''_data'') @ ''])'' @
     [nl, tab, tab, tab, tab] @ ''|> pivot(rowKey: ["_time"], columnKey: ["_field"], valueColumn: "_value")'' @
     [nl, tab, tab]\<close>

text \<open>
  \<^verbatim>\<open>buildAggregatedQuery\<close>. The \<^verbatim>\<open>strings.Builder\<close> is the text written so far;
  the \<^verbatim>\<open>for ... range aggrFunctions\<close> loop is a fold that appends one stage per
  function, in the order of the slice. Of the handler only \<^verbatim>\<open>h.Bucket\<close> is read.
\<close>

definition buildAggregatedQuery :: "RecordHandler \<Rightarrow> string \<Rightarrow> QueryParams \<Rightarrow> string" where
  "buildAggregatedQuery h deviceID params =
     (let queryBuilder = baseQuery (Bucket h) (Start params) (Stop params) deviceID;
          aggrFunctions = Split (Aggr params) CHR '',''
      in if length aggrFunctions = 1
         then queryBuilder @ singleAggregation (hd aggrFunctions) (AggFreq params)
         else fold (\<lambda>aggFunc queryBuilder. queryBuilder @ aggregationStage aggFunc (AggFreq params))
                aggrFunctions queryBuilder
              @ unionPivot aggrFunctions)"

section \<open>Query execution and result shaping (\<^verbatim>\<open>executeAndProcessQuery\<close>)\<close>

text \<open>
  The body of the \<^verbatim>\<open>for result.Next()\<close> loop. The record starts with
  \<^verbatim>\<open>timestamp\<close> and \<^verbatim>\<open>device_id\<close>; the inner \<^verbatim>\<open>range values\<close> loop then copies
  each entry whose key, cut at its first underscore, is a supported aggregation.
  \<^verbatim>\<open>strings.Split(key, "_")[0]\<close> is the head of the pieces, which are never empty.
\<close>

definition processRecord :: "row \<Rightarrow> record_out" where
  "processRecord values =
     fold (\<lambda>(key, value) record.
             if IsInArray (hd (Split key CHR ''_'')) supportedAggregations
             then record(key \<mapsto> value) else record)
       values
       [''timestamp'' \<mapsto> index values ''_time'', ''device_id'' \<mapsto> index values ''device_id'']"

text \<open>
  \<^verbatim>\<open>executeAndProcessQuery\<close>: one call of the store; an error of the call or an error
  reported after the rows is returned instead of the records.
\<close>

definition executeAndProcessQuery ::
  "RecordHandler \<Rightarrow> string \<Rightarrow> (string + record_out list) \<times> store_call list" where
  "executeAndProcessQuery h query =
     (case QueryAPI (InfluxClient h) (Org h) query of
        Inl err \<Rightarrow> (Inl err, [QueryCall (Org h) query])
      | Inr result \<Rightarrow>
          (let records = fold (\<lambda>values records. records @ [processRecord values]) (Records result) []
           in case Err result of
                Some err \<Rightarrow> (Inl err, [QueryCall (Org h) query])
              | None \<Rightarrow> (Inr records, [QueryCall (Org h) query])))"

text \<open>
  The record literal that \<^verbatim>\<open>GetAllData\<close> and \<^verbatim>\<open>GetDataFromDeviceByLocation\<close> build
  for each row of their own raw queries.
\<close>

definition rawRecord :: "row \<Rightarrow> record_out" where
  "rawRecord values =
     [''timestampSampled'' \<mapsto> index values ''_time'',
      ''deviceId'' \<mapsto> index values ''device_id'',
      ''temperature'' \<mapsto> index values ''temperature'',
      ''humidity'' \<mapsto> index values ''humidity'',
      ''location'' \<mapsto> index values ''location'']"

section \<open>The handlers\<close>

text \<open>
  \<^verbatim>\<open>GetDataFromDeviceByID\<close>. The path parameter is read and used as it is; the
  query is the raw literal when \<^verbatim>\<open>Aggr\<close> is empty and the built one otherwise.
\<close>

definition GetDataFromDeviceByID :: "RecordHandler \<Rightarrow> Context \<Rightarrow> response \<times> store_call list" where
  "GetDataFromDeviceByID h c =
     (let deviceId = Param c ''deviceId'';
          params = \<lparr>Start = ''-30d'', Stop = Now c, Aggr = '''', AggFreq = ''1d''\<rparr>
      in case ShouldBindQuery c params of
           Inl err \<Rightarrow> ((400, ErrorH ''Invalid query parameters''), [])
         | Inr params \<Rightarrow>
             (let query = (if Aggr params = ''''
                           then rawDeviceQuery (Bucket h) (Start params) (Stop params) deviceId
                           else buildAggregatedQuery h deviceId params)
              in case executeAndProcessQuery h query of
                   (Inl err, calls) \<Rightarrow> ((500, ErrorH ''Failed to retrieve data''), calls)
                 | (Inr records, calls) \<Rightarrow> ((200, DataH records), calls)))"

text \<open>
  \<^verbatim>\<open>c.ShouldBindJSON(&data)\<close> decodes the body and then validates the struct tags.
  Every field of \<^verbatim>\<open>SensorData\<close> is tagged \<^verbatim>\<open>binding:"required"\<close>, and the validator's
  \<^verbatim>\<open>required\<close> fails on a field that holds the zero value of its type: the empty
  string, the number \<open>0\<close>, and for the \<^verbatim>\<open>time.Time\<close> struct the value whose fields
  are all zero.
\<close>

definition required :: "SensorData \<Rightarrow> bool" where
  "required data =
     (DeviceID data \<noteq> '''' \<and> Temperature data \<noteq> 0 \<and> Humidity data \<noteq> 0 \<and>
      Location data \<noteq> '''' \<and> TimestampSampled data \<noteq> zeroTime)"

definition ShouldBindJSON :: "Context \<Rightarrow> string + SensorData" where
  "ShouldBindJSON c =
     (case JSONBody c of
        None \<Rightarrow> Inl ''decode''
      | Some data \<Rightarrow> if required data then Inr data else Inl ''required'')"

text \<open>\<^verbatim>\<open>PostData\<close>: bind, check the humidity, assemble the point, write it.\<close>

definition PostData :: "RecordHandler \<Rightarrow> Context \<Rightarrow> response \<times> store_call list" where
  "PostData h c =
     (case ShouldBindJSON c of
        Inl err \<Rightarrow> ((400, ErrorH ''Invalid input''), [])
      | Inr data \<Rightarrow>
          if Humidity data < 0 \<or> Humidity data > 100
          then ((400, ErrorH ''Humidity Must be in range [0.0, 100.00]''), [])
          else
            (let point = \<lparr>Measurement = ''sensor_data'',
                          Tags = [(''device_id'', DeviceID data)],
                          Fields = [(''temperature'', VFloat (Temperature data)),
                                    (''humidity'', VFloat (Humidity data)),
                                    (''location'', VString (Location data))],
                          Time = TimestampSampled data\<rparr>
             in case WriteAPIBlocking (InfluxClient h) (Org h) (Bucket h) point of
                  Some err \<Rightarrow> ((500, ErrorH ''Failed to store data''),
                               [WriteCall (Org h) (Bucket h) point])
                | None \<Rightarrow> ((200, StoredH ''Data stored successfully'' data),
                           [WriteCall (Org h) (Bucket h) point])))"

section \<open>Routing (\<^verbatim>\<open>RegisterRoutes\<close>)\<close>

text \<open>
  \<^verbatim>\<open>RegisterRoutes\<close> binds four patterns to the four handlers. The router compares a
  request path with a pattern segment by segment: a segment \<^verbatim>\<open>:name\<close> of the pattern
  matches any segment that is not empty and binds it to \<open>name\<close>; every other segment
  matches only itself. A handler reads the bound segments with \<^verbatim>\<open>c.Param\<close>, which
  gives the empty string for a name that is not bound.
\<close>

datatype httpMethod = GET | POST

datatype handlerFunc =
  PostDataFunc | GetAllDataFunc | GetDataFromDeviceByIDFunc | GetDataFromDeviceByLocationFunc

definition RegisterRoutes :: "(httpMethod \<times> string \<times> handlerFunc) list" where
  "RegisterRoutes =
     [(POST, ''/records'', PostDataFunc),
      (GET, ''/records'', GetAllDataFunc),
      (GET, ''/records/devices/:deviceId'', GetDataFromDeviceByIDFunc),
      (GET, ''/records/locations/:location'', GetDataFromDeviceByLocationFunc)]"

fun matchSegments :: "string list \<Rightarrow> string list \<Rightarrow> (string \<times> string) list option" where
  "matchSegments [] [] = Some []"
| "matchSegments (p # pattern) (s # path) =
     (if p \<noteq> [] \<and> hd p = CHR '':''
      then (if s = [] then None
            else (case matchSegments pattern path of
                    None \<Rightarrow> None
                  | Some params \<Rightarrow> Some ((tl p, s) # params)))
      else (if p = s then matchSegments pattern path else None))"
| "matchSegments pattern path = None"

fun findRoute ::
  "(httpMethod \<times> string \<times> handlerFunc) list \<Rightarrow> httpMethod \<Rightarrow> string
     \<Rightarrow> (handlerFunc \<times> (string \<times> string) list) option" where
  "findRoute [] m path = None"
| "findRoute ((m', pattern, f) # routes) m path =
     (if m' = m
      then (case matchSegments (Split pattern CHR ''/'') (Split path CHR ''/'') of
              Some params \<Rightarrow> Some (f, params)
            | None \<Rightarrow> findRoute routes m path)
      else findRoute routes m path)"

text \<open>
  A request served as far as \<^verbatim>\<open>GetDataFromDeviceByID\<close> is concerned: when the route
  found is the device route, the handler runs on the context with the bound path
  parameters; otherwise the handler does not run (\<open>None\<close>: another handler runs, or no
  route matches and the router answers by itself).
\<close>

definition serveDeviceRoute ::
  "RecordHandler \<Rightarrow> httpMethod \<Rightarrow> string \<Rightarrow> Context \<Rightarrow> (response \<times> store_call list) option" where
  "serveDeviceRoute h m path c =
     (case findRoute RegisterRoutes m path of
        Some (GetDataFromDeviceByIDFunc, params) \<Rightarrow>
          Some (GetDataFromDeviceByID h
                  (c\<lparr>Param := (\<lambda>name. case map_of params name of None \<Rightarrow> '''' | Some s \<Rightarrow> s)\<rparr>))
      | _ \<Rightarrow> None)"

section \<open>Concrete inputs\<close>

text \<open>
  A store that answers every query with one given result and accepts every write, a
  handler on it, and the request of the scenarios: device \<^verbatim>\<open>sensor_123\<close> between
  \<^verbatim>\<open>2024-02-01T00:00:00Z\<close> and \<^verbatim>\<open>2024-02-02T00:00:00Z\<close>.
\<close>

definition storeReturning :: "QueryTableResult \<Rightarrow> InfluxClient" where
  "storeReturning result =
     \<lparr>QueryAPI = (\<lambda>org query. Inr result), WriteAPIBlocking = (\<lambda>org bucket point. None)\<rparr>"

definition handlerOn :: "QueryTableResult \<Rightarrow> RecordHandler" where
  "handlerOn result = \<lparr>InfluxClient = storeReturning result, Org = ''brewery'', Bucket = ''sensors''\<rparr>"

definition noRows :: QueryTableResult where
  "noRows = \<lparr>Records = [], Err = None\<rparr>"

definition scenarioParams :: "string \<Rightarrow> QueryParams" where
  "scenarioParams aggr =
     \<lparr>Start = ''2024-02-01T00:00:00Z'', Stop = ''2024-02-02T00:00:00Z'', Aggr = aggr, AggFreq = ''1d''\<rparr>"

definition deviceRequest :: "string \<Rightarrow> string \<Rightarrow> Context" where
  "deviceRequest deviceId aggr =
     \<lparr>Param = (\<lambda>name. if name = ''deviceId'' then deviceId else ''''),
      ShouldBindQuery = (\<lambda>params. Inr (params\<lparr>Start := ''2024-02-01T00:00:00Z'',
                                                Stop := ''2024-02-02T00:00:00Z'',
                                                Aggr := aggr\<rparr>)),
      JSONBody = None,
      Now = ''2024-03-01T12:00:00Z''\<rparr>"

text \<open>
  The reading of the scenarios, with the temperature and the humidity left open, and
  the request that posts a reading. The instant \<^verbatim>\<open>2024-02-01T00:00:00Z\<close> is
  \<open>63842342400\<close> seconds after Go's zero instant.
\<close>

definition scenarioReading :: "real \<Rightarrow> real \<Rightarrow> SensorData" where
  "scenarioReading temperature humidity =
     \<lparr>DeviceID = ''sensor_123'', Temperature = temperature, Humidity = humidity,
      Location = ''Room 1'',
      TimestampSampled = \<lparr>wall = 0, ext = 63842342400, loc = None\<rparr>\<rparr>"

definition postRequest :: "SensorData \<Rightarrow> Context" where
  "postRequest data =
     \<lparr>Param = (\<lambda>name. ''''), ShouldBindQuery = Inr, JSONBody = Some data,
      Now = ''2024-03-01T12:00:00Z''\<rparr>"

text \<open>
  The row the store holds for the scenario reading after the pivot of the raw query,
  and the row of the \<^verbatim>\<open>mean,max\<close> query over the day that holds only that reading.
\<close>

definition rawRow :: row where
  "rawRow =
     [(''result'', VString ''_result''), (''table'', VInt 0),
      (''_start'', VTime 63842342400), (''_stop'', VTime 63842428800),
      (''_time'', VTime 63842342400), (''_measurement'', VString ''sensor_data''),
      (''device_id'', VString ''sensor_123''),
      (''humidity'', VFloat 55), (''location'', VString ''Room 1''),
      (''temperature'', VFloat 18.5)]"


section \<open>The output fields the specification names\<close>


section \<open>Properties of the helpers\<close>


lemma splitFrom_length: "length (splitFrom sep cur s) = Suc (count_list s sep)"
  by (induction s arbitrary: cur) simp_all


lemma splitFrom_not_Nil: "splitFrom sep cur s \<noteq> []"
  by (induction s arbitrary: cur) simp_all



lemma Split_length_one: "(length (Split s sep) = Suc 0) = (sep \<notin> set s)"
  by (simp add: Split_def splitFrom_length count_list_0_iff)


lemma Split_not_Nil: "Split s sep \<noteq> []"
  by (simp add: Split_def splitFrom_not_Nil)

lemma fold_append_stage: "fold (\<lambda>x acc. acc @ g x) xs init = init @ concat (map g xs)"
  by (induction xs arbitrary: init) simp_all

lemma Join_suffix: "xs \<noteq> [] \<Longrightarrow> Join xs (suf @ sep) @ suf = Join (map (\<lambda>x. x @ suf) xs) sep"
  by (induction xs sep rule: Join.induct) simp_all


lemma buildAggregatedQuery_stages:
  "CHR '','' \<in> set (Aggr params) \<Longrightarrow>
   buildAggregatedQuery h deviceID params =
     baseQuery (Bucket h) (Start params) (Stop params) deviceID
     @ concat (map (\<lambda>aggFunc. aggregationStage aggFunc (AggFreq params))
                (Split (Aggr params) CHR '',''))
     @ unionPivot (Split (Aggr params) CHR '','')"
  by (simp add: buildAggregatedQuery_def Let_def Split_length_one fold_append_stage)


lemma IsInArrayT_equality:
  "\<forall>a b. eq a b = Some (a = b) \<Longrightarrow> IsInArrayT eq x xs = Some (x \<in> set xs)"
  by (induction xs) (auto split: bool.splits)

lemma IsInArrayT_string: "IsInArrayT stringEq x xs = Some (IsInArray x xs)"
  by (induction xs) (simp_all add: stringEq_def)

text \<open>
  Claim C10 as stated fails. With \<^verbatim>\<open>float64\<close> elements, \<^verbatim>\<open>NaN\<close> occurs in the
  slice \<^verbatim>\<open>[NaN]\<close> and \<^verbatim>\<open>IsInArray(NaN, [NaN])\<close> is false. With interface elements, a
  slice value occurs in the slice that holds it and the call does not return: the
  comparison panics.
\<close>

theorem IsInArray_NaN_not_found:
  "NaN \<in> set [NaN] \<and> IsInArrayT float64Eq NaN [NaN] = Some False
   \<and> ASlice [] \<in> set [ASlice []] \<and> IsInArrayT anyEq (ASlice []) [ASlice []] = None"
  by simp

text \<open>
  Claim C10 as amended. For every element type on which \<^verbatim>\<open>==\<close> never panics and is
  equality, \<^verbatim>\<open>IsInArray(x, xs)\<close> is true if and only if \<open>x\<close> occurs in \<open>xs\<close>, and it
  is false on the empty list. Strings are such a type, so this holds for the instance
  the repository uses.
\<close>

theorem IsInArray_iff_occurs:
  assumes "\<forall>a b. eq a b = Some (a = b)"
  shows "IsInArrayT eq x xs = Some (x \<in> set xs) \<and> IsInArrayT eq x [] = Some False
         \<and> IsInArray s ss = (s \<in> set ss) \<and> IsInArray s [] = False"
proof (intro conjI)
  from assms show "IsInArrayT eq x xs = Some (x \<in> set xs)"
    by (rule IsInArrayT_equality)
  show "IsInArrayT eq x [] = Some False"
    by simp
  show "IsInArray s ss = (s \<in> set ss)"
    by (induction ss) auto
  show "IsInArray s [] = False"
    by simp
qed

theorem IsInArray_iff_occurs_witness:
  "(\<forall>a b. stringEq a b = Some (a = b))
   \<and> IsInArrayT stringEq ''mean'' supportedAggregations = Some True
   \<and> IsInArrayT stringEq ''median'' supportedAggregations = Some False
   \<and> IsInArrayT stringEq ''mean'' [] = Some False"
proof -
  have e: "\<forall>a b. stringEq a b = Some (a = b)"
    by (simp add: stringEq_def)
  from IsInArray_iff_occurs [OF e, of "''mean''" supportedAggregations]
  have a: "IsInArrayT stringEq ''mean'' supportedAggregations = Some True"
    and c: "IsInArrayT stringEq ''mean'' [] = Some False"
    by (simp_all add: supportedAggregations_def)
  from IsInArray_iff_occurs [OF e, of "''median''" supportedAggregations]
  have b: "IsInArrayT stringEq ''median'' supportedAggregations = Some False"
    by (simp add: supportedAggregations_def)
  from e a b c show ?thesis
    by (intro conjI)
qed

section \<open>The query builder: claims\<close>

text \<open>
  Claim C5. When the aggregation list has more than one function, the query text is,
  in this order: the base filter, written once, which reads the bucket, restricts the
  range to \<^verbatim>\<open>Start\<close> and \<^verbatim>\<open>Stop\<close>, the measurement to \<^verbatim>\<open>sensor_data\<close>, the device
  to the given id and the fields to \<^verbatim>\<open>temperature\<close> and \<^verbatim>\<open>humidity\<close>; then, for
  each requested function in the order of the list, one stage that takes the filtered
  data, aggregates it over windows of \<^verbatim>\<open>AggFreq\<close> with that function and renames every
  field to the function's prefix; then the union of the tables of all the stages; then
  the pivot to one row per timestamp.
\<close>

theorem buildAggregatedQuery_multiple:
  assumes "length (Split (Aggr params) CHR '','') > 1"
  shows \<open>buildAggregatedQuery h deviceID params =
     ([nl, tab, tab] @ ''data = from(bucket: "'' @ Bucket h @ ''")'' @
      [nl, tab, tab, tab] @ ''|> range(start: '' @ Start params @ '', stop: '' @ Stop params @ '')'' @
      [nl, tab, tab, tab] @ ''|> filter(fn: (r) => r._measurement == "sensor_data")'' @
      [nl, tab, tab, tab] @ ''|> filter(fn: (r) => r["device_id"] == "'' @ deviceID @ ''")'' @
      [nl, tab, tab, tab] @ ''|> filter(fn: (r) => r._field == "temperature" or r._field == "humidity")'' @
      [nl, tab])
     @ concat (map (\<lambda>aggFunc.
          [nl, tab, tab, tab, tab] @ aggFunc @ ''_data = data'' @
          [nl, tab, tab, tab, tab, tab] @ ''|> aggregateWindow(every: '' @ AggFreq params @ '', fn: '' @ aggFunc @ '', createEmpty: false)'' @
          [nl, tab, tab, tab, tab, tab] @ ''|> set(key: "_aggregate", value: "'' @ aggFunc @ ''")'' @
          [nl, tab, tab, tab, tab, tab] @ ''|> map(fn: (r) => ({ r with _field: "'' @ aggFunc @ ''_${r._field}" }))'' @
          [nl, tab, tab, tab])
        (Split (Aggr params) CHR '',''))
     @ ([nl, tab, tab, tab] @ ''union(tables: ['' @
        Join (map (\<lambda>aggFunc. aggFunc @ ''_data'') (Split (Aggr params) CHR '','')) '','' @
        ''])'' @
        [nl, tab, tab, tab, tab] @ ''|> pivot(rowKey: ["_time"], columnKey: ["_field"], valueColumn: "_value")'' @
        [nl, tab, tab])\<close>
proof -
  from assms have "CHR '','' \<in> set (Aggr params)"
    using Split_length_one [of "Aggr params" "CHR '',''"] by auto
  then have stages: "buildAggregatedQuery h deviceID params =
           baseQuery (Bucket h) (Start params) (Stop params) deviceID
           @ concat (map (\<lambda>aggFunc. aggregationStage aggFunc (AggFreq params))
                      (Split (Aggr params) CHR '',''))
           @ unionPivot (Split (Aggr params) CHR '','')"
    by (rule buildAggregatedQuery_stages)
  have "Join (Split (Aggr params) CHR '','') (''_data'' @ '','') @ ''_data'' =
        Join (map (\<lambda>aggFunc. aggFunc @ ''_data'') (Split (Aggr params) CHR '','')) '',''"
    by (rule Join_suffix) (rule Split_not_Nil)
  then have union: \<open>unionPivot (Split (Aggr params) CHR '','') =
               [nl, tab, tab, tab] @ ''union(tables: ['' @
               Join (map (\<lambda>aggFunc. aggFunc @ ''_data'') (Split (Aggr params) CHR '','')) '','' @
               ''])'' @
               [nl, tab, tab, tab, tab] @
               ''|> pivot(rowKey: ["_time"], columnKey: ["_field"], valueColumn: "_value")'' @
               [nl, tab, tab]\<close>
    by (simp add: unionPivot_def)
  show ?thesis
    unfolding stages union
    by (simp add: baseQuery_def aggregationStage_def)
qed

theorem buildAggregatedQuery_multiple_witness:
  \<open>length (Split ''mean,max'' CHR '','') > 1 \<and>
   buildAggregatedQuery (handlerOn noRows) ''sensor_123'' (scenarioParams ''mean,max'') =
     [nl, tab, tab] @ ''data = from(bucket: "sensors")'' @
     [nl, tab, tab, tab] @ ''|> range(start: 2024-02-01T00:00:00Z, stop: 2024-02-02T00:00:00Z)'' @
     [nl, tab, tab, tab] @ ''|> filter(fn: (r) => r._measurement == "sensor_data")'' @
     [nl, tab, tab, tab] @ ''|> filter(fn: (r) => r["device_id"] == "sensor_123")'' @
     [nl, tab, tab, tab] @ ''|> filter(fn: (r) => r._field == "temperature" or r._field == "humidity")'' @
     [nl, tab, nl, tab, tab, tab, tab] @ ''mean_data = data'' @
     [nl, tab, tab, tab, tab, tab] @ ''|> aggregateWindow(every: 1d, fn: mean, createEmpty: false)'' @
     [nl, tab, tab, tab, tab, tab] @ ''|> set(key: "_aggregate", value: "mean")'' @
     [nl, tab, tab, tab, tab, tab] @ ''|> map(fn: (r) => ({ r with _field: "mean_${r._field}" }))'' @
     [nl, tab, tab, tab, nl, tab, tab, tab, tab] @ ''max_data = data'' @
     [nl, tab, tab, tab, tab, tab] @ ''|> aggregateWindow(every: 1d, fn: max, createEmpty: false)'' @
     [nl, tab, tab, tab, tab, tab] @ ''|> set(key: "_aggregate", value: "max")'' @
     [nl, tab, tab, tab, tab, tab] @ ''|> map(fn: (r) => ({ r with _field: "max_${r._field}" }))'' @
     [nl, tab, tab, tab, nl, tab, tab, tab] @ ''union(tables: [mean_data,max_data])'' @
     [nl, tab, tab, tab, tab] @ ''|> pivot(rowKey: ["_time"], columnKey: ["_field"], valueColumn: "_value")'' @
     [nl, tab, tab]\<close>
proof -
  have len: "length (Split (Aggr (scenarioParams ''mean,max'')) CHR '','') > 1"
    by (simp add: scenarioParams_def Split_def)
  have sp: "Split ''mean,max'' CHR '','' = [''mean'', ''max'']"
    by (simp add: Split_def)
  from buildAggregatedQuery_multiple [OF len, of "handlerOn noRows" "''sensor_123''"] sp
  show ?thesis
    by (simp add: scenarioParams_def handlerOn_def)
qed

text \<open>
  Claim C6. Query construction is a function of the bucket, the device id and the four
  fields of \<^verbatim>\<open>QueryParams\<close>: two constructions from equal inputs give the same text,
  with the same stages in the same order, whatever else differs in the handlers
  (organisation, client).
\<close>

theorem buildAggregatedQuery_deterministic:
  assumes "Bucket h = Bucket h'" and "deviceID = deviceID'"
    and "Start params = Start params'" and "Stop params = Stop params'"
    and "Aggr params = Aggr params'" and "AggFreq params = AggFreq params'"
  shows "buildAggregatedQuery h deviceID params = buildAggregatedQuery h' deviceID' params'
         \<and> map (\<lambda>aggFunc. aggregationStage aggFunc (AggFreq params)) (Split (Aggr params) CHR '','')
           = map (\<lambda>aggFunc. aggregationStage aggFunc (AggFreq params')) (Split (Aggr params') CHR '','')"
  using assms by (simp add: buildAggregatedQuery_def Let_def)

theorem buildAggregatedQuery_deterministic_witness:
  "buildAggregatedQuery (handlerOn noRows) ''sensor_123'' (scenarioParams ''mean,max'')
     = buildAggregatedQuery ((handlerOn \<lparr>Records = [], Err = Some ''closed''\<rparr>)\<lparr>Org := ''other''\<rparr>)
         ''sensor_123'' (scenarioParams ''mean,max'')"
proof -
  have b: "Bucket (handlerOn noRows)
             = Bucket ((handlerOn \<lparr>Records = [], Err = Some ''closed''\<rparr>)\<lparr>Org := ''other''\<rparr>)"
    by (simp add: handlerOn_def)
  from buildAggregatedQuery_deterministic [OF b refl refl refl refl refl]
  show ?thesis by (rule conjunct1)
qed



section \<open>Result shaping and the handlers: auxiliary facts\<close>


lemma fold_copy_other:
  "\<not> P k \<Longrightarrow>
   fold (\<lambda>(key, value) record. if P key then record(key \<mapsto> value) else record) row r k = r k"
  by (induction row arbitrary: r) (auto split: if_splits)




lemma processRecord_unsupported:
  "\<not> IsInArray (hd (Split k CHR ''_'')) supportedAggregations \<Longrightarrow>
   processRecord row k =
     [''timestamp'' \<mapsto> index row ''_time'', ''device_id'' \<mapsto> index row ''device_id''] k"
  unfolding processRecord_def by (rule fold_copy_other)


lemma processRecord_bare_fields:
  "processRecord row ''temperature'' = None \<and> processRecord row ''humidity'' = None \<and>
   processRecord row ''location'' = None \<and> processRecord row ''deviceId'' = None"
  by (simp add: processRecord_unsupported Split_def supportedAggregations_def)

lemma fold_append_record: "fold (\<lambda>x acc. acc @ [g x]) xs init = init @ map g xs"
  by (induction xs arbitrary: init) simp_all


lemma executeAndProcessQuery_calls:
  "snd (executeAndProcessQuery h query) = [QueryCall (Org h) query]"
  by (simp add: executeAndProcessQuery_def Let_def split: sum.splits option.splits)

lemma executeAndProcessQuery_records:
  "QueryAPI (InfluxClient h) (Org h) query = Inr result \<Longrightarrow> Err result = None \<Longrightarrow>
   executeAndProcessQuery h query =
     (Inr (map processRecord (Records result)), [QueryCall (Org h) query])"
  by (simp add: executeAndProcessQuery_def fold_append_record)

lemma GetDataFromDeviceByID_bound:
  assumes "ShouldBindQuery c \<lparr>Start = ''-30d'', Stop = Now c, Aggr = '''', AggFreq = ''1d''\<rparr>
             = Inr params"
  shows "snd (GetDataFromDeviceByID h c) =
           [QueryCall (Org h)
              (if Aggr params = ''''
               then rawDeviceQuery (Bucket h) (Start params) (Stop params) (Param c ''deviceId'')
               else buildAggregatedQuery h (Param c ''deviceId'') params)]
         \<and> fst (fst (GetDataFromDeviceByID h c)) \<noteq> 400"
proof -
  let ?query = "if Aggr params = ''''
               then rawDeviceQuery (Bucket h) (Start params) (Stop params) (Param c ''deviceId'')
               else buildAggregatedQuery h (Param c ''deviceId'') params"
  obtain res calls where e: "executeAndProcessQuery h ?query = (res, calls)"
    by (cases "executeAndProcessQuery h ?query")
  with executeAndProcessQuery_calls [of h ?query] have calls: "calls = [QueryCall (Org h) ?query]"
    by simp
  from assms e calls show ?thesis
    by (cases res) (simp_all add: GetDataFromDeviceByID_def Let_def)
qed

lemma GetDataFromDeviceByID_rows:
  assumes "ShouldBindQuery c \<lparr>Start = ''-30d'', Stop = Now c, Aggr = '''', AggFreq = ''1d''\<rparr>
             = Inr params"
    and "QueryAPI (InfluxClient h) (Org h)
           (if Aggr params = ''''
            then rawDeviceQuery (Bucket h) (Start params) (Stop params) (Param c ''deviceId'')
            else buildAggregatedQuery h (Param c ''deviceId'') params) = Inr result"
    and "Err result = None"
  shows "fst (GetDataFromDeviceByID h c) = (200, DataH (map processRecord (Records result)))"
  using assms
  by (simp add: GetDataFromDeviceByID_def Let_def executeAndProcessQuery_records)

lemma PostData_out_of_range:
  assumes "JSONBody c = Some data" and "Humidity data < 0 \<or> Humidity data > 100"
  shows "fst (fst (PostData h c)) = 400 \<and> snd (PostData h c) = []"
  using assms by (simp add: PostData_def ShouldBindJSON_def)

lemma PostData_in_range:
  assumes "JSONBody c = Some data" and "0 \<le> Humidity data" and "Humidity data \<le> 100"
    and "required data"
    and "WriteAPIBlocking (InfluxClient h) (Org h) (Bucket h)
           \<lparr>Measurement = ''sensor_data'', Tags = [(''device_id'', DeviceID data)],
            Fields = [(''temperature'', VFloat (Temperature data)),
                      (''humidity'', VFloat (Humidity data)),
                      (''location'', VString (Location data))],
            Time = TimestampSampled data\<rparr> = None"
  shows "PostData h c =
           ((200, StoredH ''Data stored successfully'' data),
            [WriteCall (Org h) (Bucket h)
               \<lparr>Measurement = ''sensor_data'', Tags = [(''device_id'', DeviceID data)],
                Fields = [(''temperature'', VFloat (Temperature data)),
                          (''humidity'', VFloat (Humidity data)),
                          (''location'', VString (Location data))],
                Time = TimestampSampled data\<rparr>])"
  using assms by (simp add: PostData_def ShouldBindJSON_def)

section \<open>Result shaping and the handlers: claims\<close>

text \<open>
  Claim C1, evaluated on the scenario. The reading with temperature 18.5 and humidity
  55.0 is in the store, and the device is queried without \<^verbatim>\<open>aggr\<close> over its day.
  The handler answers 200 with one record, and that record holds \<^verbatim>\<open>timestamp\<close> and
  \<^verbatim>\<open>device_id\<close> only: \<^verbatim>\<open>temperature\<close>, \<^verbatim>\<open>humidity\<close> and \<^verbatim>\<open>location\<close> are not
  copied, since none of them starts with a supported aggregation. The record literal of
  the two sibling handlers carries them for the same row.
\<close>

theorem raw_device_query_omits_bare_fields:
  "GetDataFromDeviceByID (handlerOn \<lparr>Records = [rawRow], Err = None\<rparr>)
       (deviceRequest ''sensor_123'' '''')
     = ((200, DataH [processRecord rawRow]),
        [QueryCall ''brewery''
           (rawDeviceQuery ''sensors'' ''2024-02-01T00:00:00Z'' ''2024-02-02T00:00:00Z''
              ''sensor_123'')])
   \<and> processRecord rawRow =
       [''timestamp'' \<mapsto> VTime 63842342400, ''device_id'' \<mapsto> VString ''sensor_123'']
   \<and> processRecord rawRow ''temperature'' = None
   \<and> processRecord rawRow ''humidity'' = None
   \<and> processRecord rawRow ''location'' = None
   \<and> rawRecord rawRow ''temperature'' = Some (VFloat 18.5)
   \<and> rawRecord rawRow ''humidity'' = Some (VFloat 55)
   \<and> rawRecord rawRow ''location'' = Some (VString ''Room 1'')"
proof (intro conjI)
  show "GetDataFromDeviceByID (handlerOn \<lparr>Records = [rawRow], Err = None\<rparr>)
       (deviceRequest ''sensor_123'' '''')
     = ((200, DataH [processRecord rawRow]),
        [QueryCall ''brewery''
           (rawDeviceQuery ''sensors'' ''2024-02-01T00:00:00Z'' ''2024-02-02T00:00:00Z''
              ''sensor_123'')])"
    by (simp add: GetDataFromDeviceByID_def executeAndProcessQuery_def handlerOn_def
        storeReturning_def deviceRequest_def)
  show "processRecord rawRow =
       [''timestamp'' \<mapsto> VTime 63842342400, ''device_id'' \<mapsto> VString ''sensor_123'']"
    by (simp add: processRecord_def rawRow_def index_def Split_def supportedAggregations_def)
  show "processRecord rawRow ''temperature'' = None"
    and "processRecord rawRow ''humidity'' = None"
    and "processRecord rawRow ''location'' = None"
    by (simp_all add: processRecord_bare_fields)
  show "rawRecord rawRow ''temperature'' = Some (VFloat 18.5)"
    and "rawRecord rawRow ''humidity'' = Some (VFloat 55)"
    and "rawRecord rawRow ''location'' = Some (VString ''Room 1'')"
    by (simp_all add: rawRecord_def rawRow_def index_def)
qed

text \<open>
  Claim C2 as stated fails: \<^verbatim>\<open>foo\<close> is not a supported aggregation, and a request
  with \<^verbatim>\<open>aggr=foo\<close> is not rejected; the aggregated query is built for it and sent
  to the store.
\<close>

theorem unsupported_token_is_queried:
  "\<not> IsInArray ''foo'' supportedAggregations
   \<and> GetDataFromDeviceByID (handlerOn noRows) (deviceRequest ''sensor_123'' ''foo'')
     = ((200, DataH []),
        [QueryCall ''brewery''
           (baseQuery ''sensors'' ''2024-02-01T00:00:00Z'' ''2024-02-02T00:00:00Z'' ''sensor_123''
            @ singleAggregation ''foo'' ''1d'')])"
  by (simp add: GetDataFromDeviceByID_def executeAndProcessQuery_def handlerOn_def
      storeReturning_def deviceRequest_def noRows_def supportedAggregations_def
      buildAggregatedQuery_def Split_def)

text \<open>
  Claim C2 as amended. The handler does not look at the tokens: whenever the query
  parameters bind and \<^verbatim>\<open>aggr\<close> is not empty, whatever its tokens are, the one call
  made to the store carries the query built from them, and the response is not a 400.
\<close>

theorem aggregation_tokens_not_validated:
  assumes "ShouldBindQuery c \<lparr>Start = ''-30d'', Stop = Now c, Aggr = '''', AggFreq = ''1d''\<rparr>
             = Inr params"
    and "Aggr params \<noteq> ''''"
  shows "snd (GetDataFromDeviceByID h c) =
           [QueryCall (Org h) (buildAggregatedQuery h (Param c ''deviceId'') params)]
         \<and> fst (fst (GetDataFromDeviceByID h c)) \<noteq> 400"
  using GetDataFromDeviceByID_bound [OF assms(1), of h] assms(2) by simp

theorem aggregation_tokens_not_validated_witness:
  "ShouldBindQuery (deviceRequest ''sensor_123'' ''median,mean'')
       \<lparr>Start = ''-30d'', Stop = Now (deviceRequest ''sensor_123'' ''median,mean''),
        Aggr = '''', AggFreq = ''1d''\<rparr> = Inr (scenarioParams ''median,mean'')
   \<and> Aggr (scenarioParams ''median,mean'') \<noteq> ''''
   \<and> \<not> IsInArray ''median'' supportedAggregations
   \<and> snd (GetDataFromDeviceByID (handlerOn noRows) (deviceRequest ''sensor_123'' ''median,mean''))
       = [QueryCall ''brewery''
            (buildAggregatedQuery (handlerOn noRows) ''sensor_123'' (scenarioParams ''median,mean''))]
   \<and> fst (fst (GetDataFromDeviceByID (handlerOn noRows)
                  (deviceRequest ''sensor_123'' ''median,mean''))) \<noteq> 400"
proof -
  have b: "ShouldBindQuery (deviceRequest ''sensor_123'' ''median,mean'')
       \<lparr>Start = ''-30d'', Stop = Now (deviceRequest ''sensor_123'' ''median,mean''),
        Aggr = '''', AggFreq = ''1d''\<rparr> = Inr (scenarioParams ''median,mean'')"
    by (simp add: deviceRequest_def scenarioParams_def)
  have a: "Aggr (scenarioParams ''median,mean'') \<noteq> ''''"
    by (simp add: scenarioParams_def)
  have m: "\<not> IsInArray ''median'' supportedAggregations"
    by (simp add: supportedAggregations_def)
  have o: "Org (handlerOn noRows) = ''brewery''"
    and p: "Param (deviceRequest ''sensor_123'' ''median,mean'') ''deviceId'' = ''sensor_123''"
    by (simp_all add: handlerOn_def deviceRequest_def)
  from aggregation_tokens_not_validated [OF b a, of "handlerOn noRows"] b a m
  show ?thesis
    unfolding o p by (intro conjI) simp_all
qed

text \<open>
  Claim C3, evaluated at the lower boundary. Humidity \<open>0\<close> lies in the range that the
  handler's own check and message allow, yet the reading is answered 400
  \<^verbatim>\<open>Invalid input\<close> and nothing is written: the \<^verbatim>\<open>required\<close> binding has already
  refused the zero value. The same reading with humidity 55 or 100 is stored, and with
  humidity 150 it is refused by the range check.
\<close>

theorem humidity_zero_rejected:
  "0 \<le> Humidity (scenarioReading 18.5 0) \<and> Humidity (scenarioReading 18.5 0) \<le> 100
   \<and> PostData (handlerOn noRows) (postRequest (scenarioReading 18.5 0))
       = ((400, ErrorH ''Invalid input''), [])
   \<and> fst (PostData (handlerOn noRows) (postRequest (scenarioReading 18.5 55)))
       = (200, StoredH ''Data stored successfully'' (scenarioReading 18.5 55))
   \<and> fst (PostData (handlerOn noRows) (postRequest (scenarioReading 18.5 100)))
       = (200, StoredH ''Data stored successfully'' (scenarioReading 18.5 100))
   \<and> PostData (handlerOn noRows) (postRequest (scenarioReading 18.5 150))
       = ((400, ErrorH ''Humidity Must be in range [0.0, 100.00]''), [])"
  by (simp add: PostData_def ShouldBindJSON_def required_def postRequest_def
      scenarioReading_def zeroTime_def handlerOn_def storeReturning_def)

text \<open>
  Claim C8. A reading in which some field holds the zero value of its type (among
  them temperature \<open>0\<close> and humidity \<open>0\<close>) is answered 400 \<^verbatim>\<open>Invalid input\<close>;
  the humidity check is not reached and the store is not called.
\<close>

theorem PostData_rejects_zero_values:
  assumes "JSONBody c = Some data"
    and "DeviceID data = '''' \<or> Temperature data = 0 \<or> Humidity data = 0 \<or>
         Location data = '''' \<or> TimestampSampled data = zeroTime"
  shows "PostData h c = ((400, ErrorH ''Invalid input''), [])"
proof -
  from assms(2) have "\<not> required data"
    by (auto simp: required_def)
  with assms(1) have "ShouldBindJSON c = Inl ''required''"
    by (simp add: ShouldBindJSON_def)
  then show ?thesis
    by (simp add: PostData_def)
qed

theorem PostData_rejects_zero_values_witness:
  "JSONBody (postRequest (scenarioReading 0 150)) = Some (scenarioReading 0 150)
   \<and> Temperature (scenarioReading 0 150) = 0
   \<and> Humidity (scenarioReading 0 150) > 100
   \<and> PostData (handlerOn noRows) (postRequest (scenarioReading 0 150))
       = ((400, ErrorH ''Invalid input''), [])"
proof -
  have b: "JSONBody (postRequest (scenarioReading 0 150)) = Some (scenarioReading 0 150)"
    by (simp add: postRequest_def)
  have z: "DeviceID (scenarioReading 0 150) = '''' \<or> Temperature (scenarioReading 0 150) = 0 \<or>
           Humidity (scenarioReading 0 150) = 0 \<or> Location (scenarioReading 0 150) = '''' \<or>
           TimestampSampled (scenarioReading 0 150) = zeroTime"
    by (simp add: scenarioReading_def)
  have t: "Temperature (scenarioReading 0 150) = 0" and u: "Humidity (scenarioReading 0 150) > 100"
    by (simp_all add: scenarioReading_def)
  from PostData_rejects_zero_values [OF b z, of "handlerOn noRows"] b t u
  show ?thesis by (intro conjI)
qed

lemma PostData_zero_time:
  "PostData (handlerOn noRows)
     (postRequest ((scenarioReading 18.5 55)\<lparr>TimestampSampled := zeroTime\<rparr>))
     = ((400, ErrorH ''Invalid input''), [])"
  by (simp add: PostData_def ShouldBindJSON_def required_def postRequest_def
      scenarioReading_def)

lemma PostData_zero_instant_with_offset:
  "fst (PostData (handlerOn noRows)
     (postRequest ((scenarioReading 18.5 55)
        \<lparr>TimestampSampled := \<lparr>wall = 0, ext = 0, loc = Some (FixedZone 3600)\<rparr>\<rparr>)))
     = (200, StoredH ''Data stored successfully''
          ((scenarioReading 18.5 55)
             \<lparr>TimestampSampled := \<lparr>wall = 0, ext = 0, loc = Some (FixedZone 3600)\<rparr>\<rparr>))"
  by (simp add: PostData_def ShouldBindJSON_def required_def postRequest_def
      scenarioReading_def zeroTime_def handlerOn_def storeReturning_def)

lemma Join_Cons: "es \<noteq> [] \<Longrightarrow> Join (e # es) sep = e @ sep @ Join es sep"
  by (cases es) simp_all

lemma Join_splitFrom: "Join (splitFrom sep cur s) [sep] = cur @ s"
  by (induction s arbitrary: cur) (simp_all add: Join_Cons splitFrom_not_Nil)

lemma Join_Split: "Join (Split s sep) [sep] = s"
  by (simp add: Split_def Join_splitFrom)

lemma matchSegments_device:
  assumes "matchSegments ['''', ''records'', ''devices'', '':deviceId''] ss = Some params"
  shows "\<exists>d. d \<noteq> '''' \<and> ss = ['''', ''records'', ''devices'', d] \<and> params = [(''deviceId'', d)]"
proof -
  from assms obtain s1 s2 s3 s4 where ss: "ss = [s1, s2, s3, s4]"
    by (cases ss; cases "tl ss"; cases "tl (tl ss)"; cases "tl (tl (tl ss))";
        cases "tl (tl (tl (tl ss)))") (auto split: if_splits option.splits)
  with assms show ?thesis
    by (auto split: if_splits)
qed

lemma findRoute_device:
  assumes "findRoute RegisterRoutes m path = Some (GetDataFromDeviceByIDFunc, params)"
  shows "\<exists>d. d \<noteq> '''' \<and> m = GET \<and> path = ''/records/devices/'' @ d \<and> params = [(''deviceId'', d)]"
proof -
  have pat: "Split ''/records/devices/:deviceId'' CHR ''/'' = ['''', ''records'', ''devices'', '':deviceId'']"
    by (simp add: Split_def)
  from assms have m: "m = GET"
    and "matchSegments ['''', ''records'', ''devices'', '':deviceId''] (Split path CHR ''/'') = Some params"
    by (auto simp: RegisterRoutes_def pat split: if_splits option.splits)
  then obtain d where d: "d \<noteq> ''''" and sp: "Split path CHR ''/'' = ['''', ''records'', ''devices'', d]"
    and params: "params = [(''deviceId'', d)]"
    using matchSegments_device by blast
  have "path = Join (Split path CHR ''/'') ''/''"
    by (simp add: Join_Split)
  with sp have "path = ''/records/devices/'' @ d"
    by simp
  with d m params show ?thesis
    by blast
qed

text \<open>
  Claim C7 as stated fails. The request \<^verbatim>\<open>GET /records/devices/\<close>, whose device id is
  empty, matches no route: the handler does not run, so nothing answers 400.
\<close>

theorem empty_deviceId_matches_no_route:
  "findRoute RegisterRoutes GET ''/records/devices/'' = None
   \<and> serveDeviceRoute (handlerOn noRows) GET ''/records/devices/'' (deviceRequest '''' '''') = None"
  by (simp add: serveDeviceRoute_def RegisterRoutes_def Split_def)

text \<open>
  Claim C7 as amended. A request for \<^verbatim>\<open>/records/devices/\<close> with an empty device id
  does not reach \<^verbatim>\<open>GetDataFromDeviceByID\<close>: the handler gives no response and makes no
  store call. Whenever a request does run the handler, it is a \<^verbatim>\<open>GET\<close> for
  \<^verbatim>\<open>/records/devices/\<close> followed by a device id that is not empty, and the handler runs
  with that id as its path parameter.
\<close>

theorem empty_deviceId_not_routed:
  "serveDeviceRoute h m ''/records/devices/'' c = None
   \<and> (\<forall>path r. serveDeviceRoute h m path c = Some r \<longrightarrow>
         (\<exists>deviceId. deviceId \<noteq> '''' \<and> m = GET \<and> path = ''/records/devices/'' @ deviceId
            \<and> r = GetDataFromDeviceByID h
                    (c\<lparr>Param := (\<lambda>name. if name = ''deviceId'' then deviceId else '''')\<rparr>)))"
proof (intro conjI allI impI)
  show "serveDeviceRoute h m ''/records/devices/'' c = None"
    by (cases m) (simp_all add: serveDeviceRoute_def RegisterRoutes_def Split_def)
next
  fix path r
  assume served: "serveDeviceRoute h m path c = Some r"
  then obtain params where route: "findRoute RegisterRoutes m path = Some (GetDataFromDeviceByIDFunc, params)"
    and r: "r = GetDataFromDeviceByID h
                  (c\<lparr>Param := (\<lambda>name. case map_of params name of None \<Rightarrow> '''' | Some s \<Rightarrow> s)\<rparr>)"
    by (auto simp: serveDeviceRoute_def split: option.splits handlerFunc.splits)
  from route obtain d where d: "d \<noteq> ''''" and m: "m = GET"
    and path: "path = ''/records/devices/'' @ d" and params: "params = [(''deviceId'', d)]"
    using findRoute_device by blast
  have "(\<lambda>name. case map_of params name of None \<Rightarrow> '''' | Some s \<Rightarrow> s)
          = (\<lambda>name. if name = ''deviceId'' then d else '''')"
    by (rule ext) (simp add: params)
  with r have "r = GetDataFromDeviceByID h
                    (c\<lparr>Param := (\<lambda>name. if name = ''deviceId'' then d else '''')\<rparr>)"
    by simp
  with d m path
  show "\<exists>deviceId. deviceId \<noteq> '''' \<and> m = GET \<and> path = ''/records/devices/'' @ deviceId
            \<and> r = GetDataFromDeviceByID h
                    (c\<lparr>Param := (\<lambda>name. if name = ''deviceId'' then deviceId else '''')\<rparr>)"
    by blast
qed

theorem empty_deviceId_not_routed_witness:
  "serveDeviceRoute (handlerOn noRows) GET ''/records/devices/sensor_123'' (deviceRequest '''' '''')
     = Some (GetDataFromDeviceByID (handlerOn noRows) (deviceRequest ''sensor_123'' ''''))
   \<and> (\<exists>deviceId. deviceId \<noteq> '''' \<and>
         ''/records/devices/sensor_123'' = ''/records/devices/'' @ deviceId \<and>
         GetDataFromDeviceByID (handlerOn noRows) (deviceRequest ''sensor_123'' '''')
           = GetDataFromDeviceByID (handlerOn noRows)
               ((deviceRequest '''' '''')
                  \<lparr>Param := (\<lambda>name. if name = ''deviceId'' then deviceId else '''')\<rparr>))"
proof -
  have ctx: "(deviceRequest '''' '''')
               \<lparr>Param := (\<lambda>name. case map_of [(''deviceId'', ''sensor_123'')] name of
                                   None \<Rightarrow> '''' | Some s \<Rightarrow> s)\<rparr>
             = deviceRequest ''sensor_123'' ''''"
    by (simp add: deviceRequest_def fun_eq_iff)
  have served: "serveDeviceRoute (handlerOn noRows) GET ''/records/devices/sensor_123''
                  (deviceRequest '''' '''')
     = Some (GetDataFromDeviceByID (handlerOn noRows) (deviceRequest ''sensor_123'' ''''))"
    unfolding ctx [symmetric]
    by (simp add: serveDeviceRoute_def RegisterRoutes_def Split_def)
  from empty_deviceId_not_routed [of "handlerOn noRows" GET "deviceRequest '''' ''''",
      THEN conjunct2, rule_format, OF served]
  have "\<exists>deviceId. deviceId \<noteq> '''' \<and>
         ''/records/devices/sensor_123'' = ''/records/devices/'' @ deviceId \<and>
         GetDataFromDeviceByID (handlerOn noRows) (deviceRequest ''sensor_123'' '''')
           = GetDataFromDeviceByID (handlerOn noRows)
               ((deviceRequest '''' '''')
                  \<lparr>Param := (\<lambda>name. if name = ''deviceId'' then deviceId else '''')\<rparr>)"
    by blast
  with served show ?thesis
    by (intro conjI)
qed





end
